theory Spec2Isabelle
  imports Complex_Main
begin

section \<open>Data model\<close>

text \<open>
  The simulator computes with C++ \<open>float\<close> and \<open>glm::vec2\<close>. The embedding has two
  readings of that arithmetic. The first reads every \<open>float\<close> as an exact \<open>real\<close>, with
  no rounding, infinities or NaN; it is the one used for which test of a request fires,
  for how many particles are appended, and for the view matrix. The values a request
  stores are rounded ones: where a statement turns on the stored centers themselves, the
  code is traced on the second reading, in which every operation of \<open>AddParticleGrid\<close>
  rounds to the nearest single-precision number (\<open>float32_round\<close> and the definitions
  named \<open>_f32\<close>). Two places divide by a value that can be zero. In
  \<open>AddParticleGrid\<close> it is the capacity
  test, whose IEEE outcome for a zero radius is written out in the model; in
  \<open>GetViewMatrix\<close> it is the zoom factor and the aspect ratio, and what is proved about
  the view is proved for values different from zero. A \<open>glm::vec2\<close> is a pair \<open>(x, y)\<close>;
  the \<open>glm\<close> operations used by the code act componentwise.
\<close>

type_synonym vec2 = "real \<times> real"

definition vec2_splat :: "real \<Rightarrow> vec2" where
  \<comment> \<open>\<open>glm::vec2(r)\<close>: both components equal to the scalar.\<close>
  "vec2_splat r = (r, r)"

definition vec2_add :: "vec2 \<Rightarrow> vec2 \<Rightarrow> vec2" where
  "vec2_add a b = (fst a + fst b, snd a + snd b)"

definition vec2_sub :: "vec2 \<Rightarrow> vec2 \<Rightarrow> vec2" where
  "vec2_sub a b = (fst a - fst b, snd a - snd b)"


definition glm_max :: "vec2 \<Rightarrow> vec2 \<Rightarrow> vec2" where
  "glm_max a b = (max (fst a) (fst b), max (snd a) (snd b))"

definition glm_min :: "vec2 \<Rightarrow> vec2 \<Rightarrow> vec2" where
  "glm_min a b = (min (fst a) (fst b), min (snd a) (snd b))"

text \<open>
  The class \<open>Particle\<close> is declared in a header that is not among the sources; the
  code constructs it as \<open>Particle(position, mass)\<close>, and these two values are all the
  record keeps.
\<close>

record Particle =
  position :: vec2
  mass :: real

text \<open>
  The members of \<open>SimulationSystem\<close>, as the constructor initialises them. The
  particle radius enters through an \<open>unsigned int\<close> parameter; the member is read
  as a real number wherever the code computes with it.
\<close>

record SimulationSystem =
  m_bottomLeft :: vec2
  m_topRight :: vec2
  m_ParticleRadius :: real
  m_Zoom :: real
  m_WindowWidth :: nat
  m_SimHeight :: real
  m_SimWidth :: real
  m_Particles :: "Particle list"

definition SimulationSystem_new :: "vec2 \<Rightarrow> vec2 \<Rightarrow> nat \<Rightarrow> SimulationSystem" where
  "SimulationSystem_new bottomLeft topRight particleRadius =
     \<lparr> m_bottomLeft = bottomLeft, m_topRight = topRight,
       m_ParticleRadius = real particleRadius,
       m_Zoom = 1, m_WindowWidth = 800,
       m_SimHeight = \<bar>snd topRight - snd bottomLeft\<bar>,
       m_SimWidth = \<bar>fst topRight - fst bottomLeft\<bar>,
       m_Particles = [] \<rparr>"

section \<open>Adding particles\<close>

definition AddParticle :: "SimulationSystem \<Rightarrow> vec2 \<Rightarrow> real \<Rightarrow> SimulationSystem" where
  "AddParticle s pos m =
     s\<lparr> m_Particles := m_Particles s @ [\<lparr> position = pos, mass = m \<rparr>] \<rparr>"

text \<open>
  The rectangle in which a particle of the system's radius lies wholly inside the
  domain: the bounds inset by one radius on every side. The code of \<open>AddParticle\<close>
  never computes it; it is the reading of "usable bounds" that the statements about
  \<open>AddParticle\<close> are measured against.
\<close>

definition inside_bounds :: "SimulationSystem \<Rightarrow> vec2 \<Rightarrow> bool" where
  "inside_bounds s p \<longleftrightarrow>
     fst (m_bottomLeft s) \<le> fst p \<and> fst p \<le> fst (m_topRight s) \<and>
     snd (m_bottomLeft s) \<le> snd p \<and> snd p \<le> snd (m_topRight s)"

definition inside_usable_bounds :: "SimulationSystem \<Rightarrow> vec2 \<Rightarrow> bool" where
  "inside_usable_bounds s p \<longleftrightarrow>
     fst (m_bottomLeft s) + m_ParticleRadius s \<le> fst p \<and>
     fst p \<le> fst (m_topRight s) - m_ParticleRadius s \<and>
     snd (m_bottomLeft s) + m_ParticleRadius s \<le> snd p \<and>
     snd p \<le> snd (m_topRight s) - m_ParticleRadius s"

subsection \<open>The grid request\<close>

text \<open>
  \<open>AddParticleGrid\<close> returns \<open>void\<close> and writes one message to the error or output
  stream. The message is the first component of the model's result.
\<close>

datatype grid_report =
    GridCreated
  | ErrNotPositive
  | ErrNoSpace
  | ErrDoesNotFit
  | ErrTooMany
  | ErrWouldOverlap

text \<open>
  \<open>rows\<close> and \<open>cols\<close> are 32-bit \<open>int\<close>s. They are modelled as integers; the one
  product of two \<open>int\<close>s the code forms, \<open>rows * cols\<close>, wraps around in two's
  complement here (in C++ its overflow is undefined).
\<close>

definition int32_mul :: "int \<Rightarrow> int \<Rightarrow> int" where
  "int32_mul a b = (a * b + 2 ^ 31) mod 2 ^ 32 - 2 ^ 31"

definition gridBottomLeft :: "SimulationSystem \<Rightarrow> vec2 \<Rightarrow> vec2" where
  "gridBottomLeft s bottomLeft =
     glm_max bottomLeft (vec2_add (m_bottomLeft s) (vec2_splat (m_ParticleRadius s)))"

definition gridTopRight :: "SimulationSystem \<Rightarrow> vec2 \<Rightarrow> vec2" where
  "gridTopRight s topRight =
     glm_min topRight (vec2_sub (m_topRight s) (vec2_splat (m_ParticleRadius s)))"

definition requiredWidth :: "SimulationSystem \<Rightarrow> int \<Rightarrow> vec2 \<Rightarrow> real" where
  "requiredWidth s cols spacing =
     (let w = real_of_int cols * (2 * m_ParticleRadius s)
      in if cols > 1 then w + real_of_int (cols - 1) * fst spacing else w)"

definition requiredHeight :: "SimulationSystem \<Rightarrow> int \<Rightarrow> vec2 \<Rightarrow> real" where
  "requiredHeight s rows spacing =
     (let h = real_of_int rows * (2 * m_ParticleRadius s)
      in if rows > 1 then h + real_of_int (rows - 1) * snd spacing else h)"

definition availableSpace :: "SimulationSystem \<Rightarrow> vec2 \<Rightarrow> vec2 \<Rightarrow> vec2" where
  "availableSpace s bottomLeft topRight =
     vec2_sub (gridTopRight s topRight) (gridBottomLeft s bottomLeft)"

text \<open>
  The capacity test divides by \<open>2 * m_ParticleRadius\<close>. It runs only when both
  components of the available space are positive, so with a zero radius both
  quotients are \<open>+\<infinity>\<close> in IEEE arithmetic and the comparison is false.
\<close>

definition tooManyParticles :: "SimulationSystem \<Rightarrow> int \<Rightarrow> int \<Rightarrow> vec2 \<Rightarrow> bool" where
  "tooManyParticles s rows cols avail =
     (if 2 * m_ParticleRadius s = 0 then False
      else (snd avail / (2 * m_ParticleRadius s)) * (fst avail / (2 * m_ParticleRadius s))
             < real_of_int (int32_mul rows cols))"

text \<open>
  In the exact reading the quotient of lines 92 and 100 is the exact one; the rounded
  quotient that the code stores is \<open>finalSpacing_f32\<close>.
\<close>

definition finalSpacing :: "int \<Rightarrow> int \<Rightarrow> vec2 \<Rightarrow> vec2 \<Rightarrow> vec2" where
  "finalSpacing rows cols spacing avail =
     (if cols = 1 then 0
      else if fst spacing > 0 then fst spacing else fst avail / real_of_int (cols - 1),
      if rows = 1 then 0
      else if snd spacing > 0 then snd spacing else snd avail / real_of_int (rows - 1))"

definition minRequiredSpacing :: "SimulationSystem \<Rightarrow> real" where
  "minRequiredSpacing s = 2 * m_ParticleRadius s"

definition gridSize :: "int \<Rightarrow> int \<Rightarrow> vec2 \<Rightarrow> vec2" where
  "gridSize rows cols fs =
     (fst fs * real_of_int (cols - 1), snd fs * real_of_int (rows - 1))"

definition startPos :: "vec2 \<Rightarrow> vec2 \<Rightarrow> vec2 \<Rightarrow> vec2" where
  "startPos gbl avail gsize =
     (if fst gsize < fst avail then fst gbl + (fst avail - fst gsize) / 2 else fst gbl,
      if snd gsize < snd avail then snd gbl + (snd avail - snd gsize) / 2 else snd gbl)"

text \<open>
  The position of line 128 in the exact reading; the rounded position that is stored is
  \<open>gridPosition_f32\<close>.
\<close>

definition gridPosition :: "vec2 \<Rightarrow> vec2 \<Rightarrow> int \<Rightarrow> int \<Rightarrow> vec2" where
  \<comment> \<open>\<open>startPos + glm::vec2(col * finalSpacing.x, row * finalSpacing.y)\<close>\<close>
  "gridPosition start fs row col =
     vec2_add start (real_of_int col * fst fs, real_of_int row * snd fs)"

text \<open>The inner loop over \<open>col\<close> and the outer loop over \<open>row\<close>.\<close>

function grid_cols ::
  "SimulationSystem \<Rightarrow> vec2 \<Rightarrow> vec2 \<Rightarrow> real \<Rightarrow> int \<Rightarrow> int \<Rightarrow> int \<Rightarrow> SimulationSystem" where
  "grid_cols s start fs m row cols col =
     (if col < cols
      then grid_cols (AddParticle s (gridPosition start fs row col) m) start fs m row cols (col + 1)
      else s)"
  by pat_completeness auto
termination
  by (relation "measure (\<lambda>(s, start, fs, m, row, cols, col). nat (cols - col))") auto

function grid_rows ::
  "SimulationSystem \<Rightarrow> vec2 \<Rightarrow> vec2 \<Rightarrow> real \<Rightarrow> int \<Rightarrow> int \<Rightarrow> int \<Rightarrow> SimulationSystem" where
  "grid_rows s start fs m rows cols row =
     (if row < rows
      then grid_rows (grid_cols s start fs m row cols 0) start fs m rows cols (row + 1)
      else s)"
  by pat_completeness auto
termination
  by (relation "measure (\<lambda>(s, start, fs, m, rows, cols, row). nat (rows - row))") auto

declare grid_cols.simps [simp del]
declare grid_rows.simps [simp del]

definition AddParticleGrid ::
  "SimulationSystem \<Rightarrow> int \<Rightarrow> int \<Rightarrow> vec2 \<Rightarrow> vec2 \<Rightarrow> vec2 \<Rightarrow> real
     \<Rightarrow> grid_report \<times> SimulationSystem" where
  "AddParticleGrid s rows cols bottomLeft topRight spacing m =
     (if rows \<le> 0 \<or> cols \<le> 0 then (ErrNotPositive, s)
      else
        let gbl = gridBottomLeft s bottomLeft;
            gtr = gridTopRight s topRight
        in
        if fst gbl \<ge> fst gtr \<or> snd gbl \<ge> snd gtr then (ErrNoSpace, s)
        else if requiredWidth s cols spacing > fst gtr - fst gbl \<or>
                requiredHeight s rows spacing > snd gtr - snd gbl
        then (ErrDoesNotFit, s)
        else
          let avail = availableSpace s bottomLeft topRight in
          if tooManyParticles s rows cols avail then (ErrTooMany, s)
          else
            let fs = finalSpacing rows cols spacing avail in
            if (cols > 1 \<and> fst fs < minRequiredSpacing s) \<or>
               (rows > 1 \<and> snd fs < minRequiredSpacing s)
            then (ErrWouldOverlap, s)
            else
              (GridCreated,
               grid_rows s (startPos gbl avail (gridSize rows cols fs)) fs m rows cols 0))"

subsection \<open>The particles a grid request appends\<close>

text \<open>
  The values \<open>finalSpacing\<close> and \<open>startPos\<close> that a request computes from its
  arguments.
\<close>

definition grid_spacing ::
  "SimulationSystem \<Rightarrow> int \<Rightarrow> int \<Rightarrow> vec2 \<Rightarrow> vec2 \<Rightarrow> vec2 \<Rightarrow> vec2" where
  "grid_spacing s rows cols bottomLeft topRight spacing =
     finalSpacing rows cols spacing (availableSpace s bottomLeft topRight)"

definition grid_start ::
  "SimulationSystem \<Rightarrow> int \<Rightarrow> int \<Rightarrow> vec2 \<Rightarrow> vec2 \<Rightarrow> vec2 \<Rightarrow> vec2" where
  "grid_start s rows cols bottomLeft topRight spacing =
     startPos (gridBottomLeft s bottomLeft) (availableSpace s bottomLeft topRight)
       (gridSize rows cols (grid_spacing s rows cols bottomLeft topRight spacing))"

text \<open>What the inner loop appends from column \<open>col\<close> on, and the outer loop from row \<open>row\<close> on.\<close>

definition row_particles ::
  "vec2 \<Rightarrow> vec2 \<Rightarrow> real \<Rightarrow> int \<Rightarrow> int \<Rightarrow> int \<Rightarrow> Particle list" where
  "row_particles start fs m row cols col =
     map (\<lambda>c. \<lparr> position = gridPosition start fs row c, mass = m \<rparr>) [col..cols - 1]"

definition grid_particles ::
  "vec2 \<Rightarrow> vec2 \<Rightarrow> real \<Rightarrow> int \<Rightarrow> int \<Rightarrow> int \<Rightarrow> Particle list" where
  "grid_particles start fs m rows cols row =
     concat (map (\<lambda>r. row_particles start fs m r cols 0) [row..rows - 1])"

text \<open>All five tests of \<open>AddParticleGrid\<close> passed.\<close>

definition grid_accepted ::
  "SimulationSystem \<Rightarrow> int \<Rightarrow> int \<Rightarrow> vec2 \<Rightarrow> vec2 \<Rightarrow> vec2 \<Rightarrow> bool" where
  "grid_accepted s rows cols bottomLeft topRight spacing \<longleftrightarrow>
     0 < rows \<and> 0 < cols \<and>
     fst (gridBottomLeft s bottomLeft) < fst (gridTopRight s topRight) \<and>
     snd (gridBottomLeft s bottomLeft) < snd (gridTopRight s topRight) \<and>
     requiredWidth s cols spacing \<le> fst (availableSpace s bottomLeft topRight) \<and>
     requiredHeight s rows spacing \<le> snd (availableSpace s bottomLeft topRight) \<and>
     \<not> tooManyParticles s rows cols (availableSpace s bottomLeft topRight) \<and>
     (1 < cols \<longrightarrow>
        minRequiredSpacing s \<le> fst (grid_spacing s rows cols bottomLeft topRight spacing)) \<and>
     (1 < rows \<longrightarrow>
        minRequiredSpacing s \<le> snd (grid_spacing s rows cols bottomLeft topRight spacing))"


definition vec2_distance :: "vec2 \<Rightarrow> vec2 \<Rightarrow> real" where
  "vec2_distance a b = sqrt ((fst a - fst b)\<^sup>2 + (snd a - snd b)\<^sup>2)"

text \<open>
  The scenario of the specification's section 8: bounds \<open>(-1000, -750)\<close>--\<open>(1000, 750)\<close>,
  radius 10. A second, small domain of 40 by 40 units with the same radius leaves a
  placement rectangle of 20 by 20.
\<close>

definition scenario_system :: SimulationSystem where
  "scenario_system = SimulationSystem_new (-1000, -750) (1000, 750) 10"

definition small_system :: SimulationSystem where
  "small_system = SimulationSystem_new (0, 0) (40, 40) 10"

section \<open>The float32 reading of AddParticleGrid\<close>

text \<open>
  The values that \<open>AddParticleGrid\<close> stores are \<open>float\<close>s: every operation of lines
  36--128 rounds its exact result to the nearest IEEE single-precision number, ties to
  the even significand. \<open>float32_round\<close> is that rounding on the reals: the binade of
  \<open>x\<close> is found by halving or doubling its magnitude into \<open>[1, 2)\<close>, the exponent kept
  within \<open>-126 .. 127\<close> (so that below \<open>2 powi (-126)\<close> the spacing is the subnormal one),
  and \<open>x\<close> is rounded to a multiple of \<open>2 powi (exponent - 23)\<close>. Overflow to infinity
  and NaN are not modelled. Each operation is rounded on its own, as the compiled
  single-precision instructions do.
\<close>

fun float32_normalize :: "nat \<Rightarrow> real \<Rightarrow> int \<Rightarrow> int" where
  "float32_normalize 0 a e = e"
| "float32_normalize (Suc k) a e =
     (if 2 \<le> a \<and> e < 127 then float32_normalize k (a / 2) (e + 1)
      else if a < 1 \<and> - 126 < e then float32_normalize k (a * 2) (e - 1)
      else e)"

definition float32_exponent :: "real \<Rightarrow> int" where
  "float32_exponent a = float32_normalize 253 a 0"

definition round_half_even :: "real \<Rightarrow> int" where
  "round_half_even y =
     (let f = \<lfloor>y\<rfloor>; d = y - of_int f
      in if d < 1 / 2 then f else if d > 1 / 2 then f + 1
         else if even f then f else f + 1)"

definition float32_round :: "real \<Rightarrow> real" where
  "float32_round x =
     (let q = 2 powi (float32_exponent \<bar>x\<bar> - 23)
      in of_int (round_half_even (x / q)) * q)"

definition f32_add :: "real \<Rightarrow> real \<Rightarrow> real" where
  "f32_add a b = float32_round (a + b)"

definition f32_sub :: "real \<Rightarrow> real \<Rightarrow> real" where
  "f32_sub a b = float32_round (a - b)"

definition f32_mul :: "real \<Rightarrow> real \<Rightarrow> real" where
  "f32_mul a b = float32_round (a * b)"

definition f32_div :: "real \<Rightarrow> real \<Rightarrow> real" where
  "f32_div a b = float32_round (a / b)"

definition f32_of_int :: "int \<Rightarrow> real" where
  \<comment> \<open>the conversion of an \<open>int\<close> operand to \<open>float\<close>\<close>
  "f32_of_int n = float32_round (real_of_int n)"

definition vec2_add_f32 :: "vec2 \<Rightarrow> vec2 \<Rightarrow> vec2" where
  "vec2_add_f32 a b = (f32_add (fst a) (fst b), f32_add (snd a) (snd b))"

definition vec2_sub_f32 :: "vec2 \<Rightarrow> vec2 \<Rightarrow> vec2" where
  "vec2_sub_f32 a b = (f32_sub (fst a) (fst b), f32_sub (snd a) (snd b))"

text \<open>
  \<open>AddParticleGrid\<close> once more, line by line as above, now with every arithmetic
  operation rounded. The arguments and the members of the system are \<open>float\<close>s
  already.
\<close>

definition gridBottomLeft_f32 :: "SimulationSystem \<Rightarrow> vec2 \<Rightarrow> vec2" where
  "gridBottomLeft_f32 s bottomLeft =
     glm_max bottomLeft (vec2_add_f32 (m_bottomLeft s) (vec2_splat (m_ParticleRadius s)))"

definition gridTopRight_f32 :: "SimulationSystem \<Rightarrow> vec2 \<Rightarrow> vec2" where
  "gridTopRight_f32 s topRight =
     glm_min topRight (vec2_sub_f32 (m_topRight s) (vec2_splat (m_ParticleRadius s)))"

definition requiredWidth_f32 :: "SimulationSystem \<Rightarrow> int \<Rightarrow> vec2 \<Rightarrow> real" where
  "requiredWidth_f32 s cols spacing =
     (let w = f32_mul (f32_of_int cols) (f32_mul 2 (m_ParticleRadius s))
      in if cols > 1 then f32_add w (f32_mul (f32_of_int (cols - 1)) (fst spacing)) else w)"

definition requiredHeight_f32 :: "SimulationSystem \<Rightarrow> int \<Rightarrow> vec2 \<Rightarrow> real" where
  "requiredHeight_f32 s rows spacing =
     (let h = f32_mul (f32_of_int rows) (f32_mul 2 (m_ParticleRadius s))
      in if rows > 1 then f32_add h (f32_mul (f32_of_int (rows - 1)) (snd spacing)) else h)"

definition tooManyParticles_f32 :: "SimulationSystem \<Rightarrow> int \<Rightarrow> int \<Rightarrow> vec2 \<Rightarrow> bool" where
  "tooManyParticles_f32 s rows cols avail =
     (if f32_mul 2 (m_ParticleRadius s) = 0 then False
      else f32_mul (f32_div (snd avail) (f32_mul 2 (m_ParticleRadius s)))
                   (f32_div (fst avail) (f32_mul 2 (m_ParticleRadius s)))
             < f32_of_int (int32_mul rows cols))"

definition finalSpacing_f32 :: "int \<Rightarrow> int \<Rightarrow> vec2 \<Rightarrow> vec2 \<Rightarrow> vec2" where
  "finalSpacing_f32 rows cols spacing avail =
     (if cols = 1 then 0
      else if fst spacing > 0 then fst spacing
      else f32_div (fst avail) (f32_of_int (cols - 1)),
      if rows = 1 then 0
      else if snd spacing > 0 then snd spacing
      else f32_div (snd avail) (f32_of_int (rows - 1)))"

definition minRequiredSpacing_f32 :: "SimulationSystem \<Rightarrow> real" where
  "minRequiredSpacing_f32 s = f32_mul 2 (m_ParticleRadius s)"

definition gridSize_f32 :: "int \<Rightarrow> int \<Rightarrow> vec2 \<Rightarrow> vec2" where
  "gridSize_f32 rows cols fs =
     (f32_mul (fst fs) (f32_of_int (cols - 1)), f32_mul (snd fs) (f32_of_int (rows - 1)))"

definition startPos_f32 :: "vec2 \<Rightarrow> vec2 \<Rightarrow> vec2 \<Rightarrow> vec2" where
  "startPos_f32 gbl avail gsize =
     (if fst gsize < fst avail
      then f32_add (fst gbl) (f32_div (f32_sub (fst avail) (fst gsize)) 2) else fst gbl,
      if snd gsize < snd avail
      then f32_add (snd gbl) (f32_div (f32_sub (snd avail) (snd gsize)) 2) else snd gbl)"

definition gridPosition_f32 :: "vec2 \<Rightarrow> vec2 \<Rightarrow> int \<Rightarrow> int \<Rightarrow> vec2" where
  "gridPosition_f32 start fs row col =
     vec2_add_f32 start (f32_mul (f32_of_int col) (fst fs), f32_mul (f32_of_int row) (snd fs))"

function grid_cols_f32 ::
  "SimulationSystem \<Rightarrow> vec2 \<Rightarrow> vec2 \<Rightarrow> real \<Rightarrow> int \<Rightarrow> int \<Rightarrow> int \<Rightarrow> SimulationSystem" where
  "grid_cols_f32 s start fs m row cols col =
     (if col < cols
      then grid_cols_f32 (AddParticle s (gridPosition_f32 start fs row col) m)
             start fs m row cols (col + 1)
      else s)"
  by pat_completeness auto
termination
  by (relation "measure (\<lambda>(s, start, fs, m, row, cols, col). nat (cols - col))") auto

function grid_rows_f32 ::
  "SimulationSystem \<Rightarrow> vec2 \<Rightarrow> vec2 \<Rightarrow> real \<Rightarrow> int \<Rightarrow> int \<Rightarrow> int \<Rightarrow> SimulationSystem" where
  "grid_rows_f32 s start fs m rows cols row =
     (if row < rows
      then grid_rows_f32 (grid_cols_f32 s start fs m row cols 0) start fs m rows cols (row + 1)
      else s)"
  by pat_completeness auto
termination
  by (relation "measure (\<lambda>(s, start, fs, m, rows, cols, row). nat (rows - row))") auto

declare grid_cols_f32.simps [simp del]
declare grid_rows_f32.simps [simp del]

definition AddParticleGrid_f32 ::
  "SimulationSystem \<Rightarrow> int \<Rightarrow> int \<Rightarrow> vec2 \<Rightarrow> vec2 \<Rightarrow> vec2 \<Rightarrow> real
     \<Rightarrow> grid_report \<times> SimulationSystem" where
  "AddParticleGrid_f32 s rows cols bottomLeft topRight spacing m =
     (if rows \<le> 0 \<or> cols \<le> 0 then (ErrNotPositive, s)
      else
        let gbl = gridBottomLeft_f32 s bottomLeft;
            gtr = gridTopRight_f32 s topRight
        in
        if fst gbl \<ge> fst gtr \<or> snd gbl \<ge> snd gtr then (ErrNoSpace, s)
        else if requiredWidth_f32 s cols spacing > f32_sub (fst gtr) (fst gbl) \<or>
                requiredHeight_f32 s rows spacing > f32_sub (snd gtr) (snd gbl)
        then (ErrDoesNotFit, s)
        else
          let avail = vec2_sub_f32 gtr gbl in
          if tooManyParticles_f32 s rows cols avail then (ErrTooMany, s)
          else
            let fs = finalSpacing_f32 rows cols spacing avail in
            if (cols > 1 \<and> fst fs < minRequiredSpacing_f32 s) \<or>
               (rows > 1 \<and> snd fs < minRequiredSpacing_f32 s)
            then (ErrWouldOverlap, s)
            else
              (GridCreated,
               grid_rows_f32 s (startPos_f32 gbl avail (gridSize_f32 rows cols fs)) fs m
                 rows cols 0))"

text \<open>What the two loops append, and the distance between two centers.\<close>

definition row_particles_f32 ::
  "vec2 \<Rightarrow> vec2 \<Rightarrow> real \<Rightarrow> int \<Rightarrow> int \<Rightarrow> int \<Rightarrow> Particle list" where
  "row_particles_f32 start fs m row cols col =
     map (\<lambda>c. \<lparr> position = gridPosition_f32 start fs row c, mass = m \<rparr>) [col..cols - 1]"

definition grid_particles_f32 ::
  "vec2 \<Rightarrow> vec2 \<Rightarrow> real \<Rightarrow> int \<Rightarrow> int \<Rightarrow> int \<Rightarrow> Particle list" where
  "grid_particles_f32 start fs m rows cols row =
     concat (map (\<lambda>r. row_particles_f32 start fs m r cols 0) [row..rows - 1])"

section \<open>The view transform\<close>










section \<open>The fixed-step clock\<close>

text \<open>
  Modelled from the spec: the state of the class \<open>Time\<close>, which the main loop uses
  (\<open>timeManager.update()\<close>, \<open>getFixedDeltaTime()\<close>) but whose code is not among the
  sources. It holds what section 4.1 of the specification names: the fixed step size
  (positive; the program constructs the clock with \<open>1 / 60\<close>), the accumulated
  remainder and the configured maximum of steps per call.
\<close>

record Time =
  fixedDeltaTime :: real
  accumulator :: real
  maxSteps :: nat

text \<open>
  Modelled from the spec: \<open>Time::update\<close>, whose code is missing. Section 4.1: given
  the duration of the frame, it returns the whole number of fixed steps that have
  accumulated and retains the fractional remainder for the next call; when that number
  exceeds the configured maximum it returns the maximum and discards the accumulated
  time beyond it instead of carrying it over. The frame duration, read from the wall
  clock in the program, is an argument here.
\<close>

definition Time_update :: "Time \<Rightarrow> real \<Rightarrow> nat \<times> Time" where
  "Time_update t frameTime =
     (let acc = accumulator t + frameTime;
          steps = nat \<lfloor>acc / fixedDeltaTime t\<rfloor>
      in if steps > maxSteps t
         then (maxSteps t, t\<lparr> accumulator := 0 \<rparr>)
         else (steps, t\<lparr> accumulator := acc - real steps * fixedDeltaTime t \<rparr>))"

section \<open>Properties of AddParticle\<close>

lemma AddParticle_particles:
  "m_Particles (AddParticle s pos m) = m_Particles s @ [\<lparr> position = pos, mass = m \<rparr>]"
  by (simp add: AddParticle_def)

lemma AddParticle_frame:
  "AddParticle s pos m \<lparr> m_Particles := ps \<rparr> = s \<lparr> m_Particles := ps \<rparr>"
  by (simp add: AddParticle_def)

text \<open>
  C2, as stated, asks that a position outside the usable bounds adds no particle.
  The code has no bounds test: in the domain \<open>(-1000, -750)\<close>--\<open>(1000, 750)\<close> with
  radius 10 the position \<open>(5000, 0)\<close> lies outside the domain, and the particle is
  appended all the same.
\<close>

theorem AddParticle_outside_bounds_appends:
  "\<not> inside_usable_bounds (SimulationSystem_new (-1000, -750) (1000, 750) 10) (5000, 0) \<and>
   \<not> inside_bounds (SimulationSystem_new (-1000, -750) (1000, 750) 10) (5000, 0) \<and>
   m_Particles (AddParticle (SimulationSystem_new (-1000, -750) (1000, 750) 10) (5000, 0) 1) =
     [\<lparr> position = (5000, 0), mass = 1 \<rparr>] \<and>
   m_Particles (SimulationSystem_new (-1000, -750) (1000, 750) 10) = []"
  by (simp add: inside_usable_bounds_def inside_bounds_def SimulationSystem_new_def
        AddParticle_def)

text \<open>
  C2, amended: \<open>AddParticle\<close> appends exactly one particle, carrying the given
  position and mass, for every position, inside the bounds or not; it never fails,
  and it changes nothing else in the system.
\<close>

theorem AddParticle_always_appends:
  "m_Particles (AddParticle s pos m) = m_Particles s @ [\<lparr> position = pos, mass = m \<rparr>] \<and>
   length (m_Particles (AddParticle s pos m)) = Suc (length (m_Particles s)) \<and>
   position (last (m_Particles (AddParticle s pos m))) = pos \<and>
   mass (last (m_Particles (AddParticle s pos m))) = m \<and>
   AddParticle s pos m \<lparr> m_Particles := m_Particles s \<rparr> = s"
  by (simp add: AddParticle_def)

section \<open>The loops of AddParticleGrid\<close>

lemma grid_cols_particles:
  "m_Particles (grid_cols s start fs m row cols col) =
     m_Particles s @ row_particles start fs m row cols col"
proof (induction s start fs m row cols col rule: grid_cols.induct)
  case (1 s start fs m row cols col)
  show ?case
  proof (cases "col < cols")
    case True
    then have "[col..cols - 1] = col # [col + 1..cols - 1]"
      by (simp add: upto_rec1)
    with True "1.IH" show ?thesis
      by (simp add: grid_cols.simps [of s] row_particles_def AddParticle_particles)
  next
    case False
    then show ?thesis
      by (simp add: grid_cols.simps [of s] row_particles_def)
  qed
qed

lemma grid_cols_frame:
  "grid_cols s start fs m row cols col \<lparr> m_Particles := ps \<rparr> = s \<lparr> m_Particles := ps \<rparr>"
proof (induction s start fs m row cols col rule: grid_cols.induct)
  case (1 s start fs m row cols col)
  show ?case
  proof (cases "col < cols")
    case True
    with "1.IH" show ?thesis
      by (simp add: grid_cols.simps [of s] AddParticle_frame)
  next
    case False
    then show ?thesis
      by (simp add: grid_cols.simps [of s])
  qed
qed

lemma grid_rows_particles:
  "m_Particles (grid_rows s start fs m rows cols row) =
     m_Particles s @ grid_particles start fs m rows cols row"
proof (induction s start fs m rows cols row rule: grid_rows.induct)
  case (1 s start fs m rows cols row)
  show ?case
  proof (cases "row < rows")
    case True
    then have "[row..rows - 1] = row # [row + 1..rows - 1]"
      by (simp add: upto_rec1)
    with True "1.IH" show ?thesis
      by (simp add: grid_rows.simps [of s] grid_particles_def grid_cols_particles)
  next
    case False
    then show ?thesis
      by (simp add: grid_rows.simps [of s] grid_particles_def)
  qed
qed

lemma grid_rows_frame:
  "grid_rows s start fs m rows cols row \<lparr> m_Particles := ps \<rparr> = s \<lparr> m_Particles := ps \<rparr>"
proof (induction s start fs m rows cols row rule: grid_rows.induct)
  case (1 s start fs m rows cols row)
  show ?case
  proof (cases "row < rows")
    case True
    with "1.IH" show ?thesis
      by (simp add: grid_rows.simps [of s] grid_cols_frame)
  next
    case False
    then show ?thesis
      by (simp add: grid_rows.simps [of s])
  qed
qed

lemma length_row_particles:
  "length (row_particles start fs m row cols col) = nat (cols - col)"
  by (simp add: row_particles_def)

lemma length_concat_const:
  "(\<And>x. x \<in> set xs \<Longrightarrow> length (f x) = k) \<Longrightarrow> length (concat (map f xs)) = length xs * k"
  by (induction xs) simp_all

lemma length_grid_particles:
  "length (grid_particles start fs m rows cols row) = nat (rows - row) * nat cols"
  by (simp add: grid_particles_def length_concat_const length_row_particles)

section \<open>Acceptance and rejection of a grid request\<close>

lemma availableSpace_components:
  "fst (availableSpace s bl tr) = fst (gridTopRight s tr) - fst (gridBottomLeft s bl)"
  "snd (availableSpace s bl tr) = snd (gridTopRight s tr) - snd (gridBottomLeft s bl)"
  by (simp_all add: availableSpace_def vec2_sub_def)

lemma AddParticleGrid_accepted:
  assumes "grid_accepted s rows cols bl tr sp"
  shows "AddParticleGrid s rows cols bl tr sp m =
           (GridCreated,
            grid_rows s (grid_start s rows cols bl tr sp) (grid_spacing s rows cols bl tr sp)
              m rows cols 0)"
  using assms
  by (auto simp add: AddParticleGrid_def grid_accepted_def grid_start_def grid_spacing_def
        availableSpace_components Let_def not_le not_less)

lemma AddParticleGrid_rejected:
  assumes "\<not> grid_accepted s rows cols bl tr sp"
  shows "fst (AddParticleGrid s rows cols bl tr sp m) \<noteq> GridCreated \<and>
         snd (AddParticleGrid s rows cols bl tr sp m) = s"
  using assms
  by (auto simp add: AddParticleGrid_def grid_accepted_def grid_spacing_def
        availableSpace_components Let_def not_le not_less)

lemma GridCreated_iff:
  "fst (AddParticleGrid s rows cols bl tr sp m) = GridCreated \<longleftrightarrow>
     grid_accepted s rows cols bl tr sp"
  using AddParticleGrid_accepted [of s rows cols bl tr sp m]
        AddParticleGrid_rejected [of s rows cols bl tr sp m]
  by (cases "grid_accepted s rows cols bl tr sp") simp_all

lemmas grid_eval_defs =
  AddParticleGrid_def scenario_system_def small_system_def SimulationSystem_new_def
  gridBottomLeft_def gridTopRight_def glm_max_def glm_min_def vec2_add_def vec2_sub_def
  vec2_splat_def requiredWidth_def requiredHeight_def availableSpace_def
  tooManyParticles_def int32_mul_def finalSpacing_def minRequiredSpacing_def Let_def

lemma scenario_2x2_accepted:
  "fst (AddParticleGrid scenario_system 2 2 (-1000, -750) (1000, 750) (0, 0) 1) = GridCreated"
  by (simp add: grid_eval_defs)

lemma scenario_100x100_rejected:
  "fst (AddParticleGrid scenario_system 100 100 (-1000, -750) (1000, 750) (0, 0) 1)
     = ErrDoesNotFit"
  by (simp add: grid_eval_defs)

text \<open>
  C1: every call of \<open>AddParticleGrid\<close> either reports success, with positive \<open>rows\<close> and
  \<open>cols\<close>, and leaves the store as the old store followed by the whole grid, which has
  exactly \<open>rows * cols\<close> particles, nothing else in the system being changed; or it
  reports a failure and returns the system unchanged. No call appends part of a grid.
\<close>

theorem AddParticleGrid_all_or_nothing:
  "(fst (AddParticleGrid s rows cols bl tr sp m) = GridCreated \<and> 0 < rows \<and> 0 < cols \<and>
    m_Particles (snd (AddParticleGrid s rows cols bl tr sp m)) =
      m_Particles s @
        grid_particles (grid_start s rows cols bl tr sp) (grid_spacing s rows cols bl tr sp)
          m rows cols 0 \<and>
    length (m_Particles (snd (AddParticleGrid s rows cols bl tr sp m))) =
      length (m_Particles s) + nat (rows * cols) \<and>
    snd (AddParticleGrid s rows cols bl tr sp m) \<lparr> m_Particles := m_Particles s \<rparr> = s)
   \<or>
   (fst (AddParticleGrid s rows cols bl tr sp m) \<noteq> GridCreated \<and>
    snd (AddParticleGrid s rows cols bl tr sp m) = s)"
proof (cases "grid_accepted s rows cols bl tr sp")
  case True
  then have pos: "0 < rows" "0 < cols"
    by (simp_all add: grid_accepted_def)
  then have "nat rows * nat cols = nat (rows * cols)"
    by (simp add: nat_mult_distrib)
  with True pos show ?thesis
    by (simp add: AddParticleGrid_accepted grid_rows_particles grid_rows_frame
          length_grid_particles)
next
  case False
  then show ?thesis
    by (simp add: AddParticleGrid_rejected)
qed

theorem AddParticleGrid_all_or_nothing_witness:
  "length (m_Particles (snd (AddParticleGrid scenario_system 2 2
      (-1000, -750) (1000, 750) (0, 0) 1))) = 4 \<and>
   snd (AddParticleGrid scenario_system 100 100 (-1000, -750) (1000, 750) (0, 0) 1)
     = scenario_system"
proof -
  have empty: "m_Particles scenario_system = []"
    by (simp add: scenario_system_def SimulationSystem_new_def)
  have "length (m_Particles (snd (AddParticleGrid scenario_system 2 2
            (-1000, -750) (1000, 750) (0, 0) 1)))
          = length (m_Particles scenario_system) + nat (2 * 2)"
    using AddParticleGrid_all_or_nothing
            [of scenario_system 2 2 "(-1000, -750)" "(1000, 750)" "(0, 0)" 1]
          scenario_2x2_accepted
    by blast
  moreover have "snd (AddParticleGrid scenario_system 100 100
            (-1000, -750) (1000, 750) (0, 0) 1) = scenario_system"
    using AddParticleGrid_all_or_nothing
            [of scenario_system 100 100 "(-1000, -750)" "(1000, 750)" "(0, 0)" 1]
          scenario_100x100_rejected
    by auto
  ultimately show ?thesis
    by (simp add: empty)
qed

section \<open>The placement rectangle and the footprint test\<close>








section \<open>Rounding to float32\<close>

lemma powi2_step:
  "(2::real) powi (c + 1) = 2 * 2 powi c" "(2::real) powi (c - 1) = 2 powi c / 2"
  by (simp_all add: power_int_add power_int_diff)

lemma powi2_less_iff: "(2::real) powi m < 2 powi n \<longleftrightarrow> m < n"
proof
  assume less: "(2::real) powi m < 2 powi n"
  show "m < n"
  proof (rule ccontr)
    assume "\<not> m < n"
    then have "(2::real) powi n \<le> 2 powi m"
      by (intro power_int_increasing) simp_all
    with less show False by simp
  qed
next
  assume "m < n"
  then show "(2::real) powi m < 2 powi n"
    by (intro power_int_strict_increasing) simp_all
qed

text \<open>
  The normalisation finds the binade: started at exponent \<open>c\<close> on the magnitude scaled by
  \<open>2 powi (- c)\<close>, with enough steps left, it returns the \<open>e\<close> with
  \<open>2 powi e \<le> magnitude < 2 powi (e + 1)\<close>.
\<close>

lemma float32_normalize_eq:
  assumes "2 powi e \<le> a * 2 powi c" "a * 2 powi c < 2 powi (e + 1)"
      and "- 126 \<le> e" "e \<le> 127" "- 126 \<le> c" "c \<le> 127"
      and "nat \<bar>e - c\<bar> \<le> k"
  shows "float32_normalize k a c = e"
  using assms
proof (induction k arbitrary: a c)
  case 0
  then show ?case by simp
next
  case (Suc k)
  have pos: "(0::real) < 2 powi c"
    by simp
  show ?case
  proof (cases "2 \<le> a \<and> c < 127")
    case True
    then have "2 powi (c + 1) \<le> a * 2 powi c"
      using pos by (simp add: powi2_step)
    with Suc.prems(2) have "(2::real) powi (c + 1) < 2 powi (e + 1)"
      by linarith
    then have lt: "c < e"
      by (simp add: powi2_less_iff)
    have "float32_normalize k (a / 2) (c + 1) = e"
      using Suc.prems lt by (intro Suc.IH) (simp_all add: powi2_step)
    with True show ?thesis by simp
  next
    case False
    note not_up = this
    show ?thesis
    proof (cases "a < 1 \<and> - 126 < c")
      case True
      then have "a * 2 powi c < 2 powi c"
        using pos by simp
      with Suc.prems(1) have "(2::real) powi e < 2 powi c"
        by linarith
      then have lt: "e < c"
        by (simp add: powi2_less_iff)
      have "float32_normalize k (a * 2) (c - 1) = e"
        using Suc.prems lt by (intro Suc.IH) (simp_all add: powi2_step)
      with True not_up show ?thesis by simp
    next
      case False
      have "\<not> c < e"
      proof
        assume above: "c < e"
        then have "c < 127" using Suc.prems(4) by simp
        with not_up have "a < 2" by simp
        then have "a * 2 powi c < 2 powi (c + 1)"
          using pos by (simp add: powi2_step)
        moreover have "(2::real) powi (c + 1) \<le> 2 powi e"
          using above by (intro power_int_increasing) simp_all
        ultimately show False
          using Suc.prems(1) by linarith
      qed
      moreover have "\<not> e < c"
      proof
        assume below: "e < c"
        then have "- 126 < c" using Suc.prems(3) by simp
        with False have "1 \<le> a" by simp
        then have "2 powi c \<le> a * 2 powi c"
          using pos by simp
        moreover have "(2::real) powi (e + 1) \<le> 2 powi c"
          using below by (intro power_int_increasing) simp_all
        ultimately show False
          using Suc.prems(2) by linarith
      qed
      ultimately have "c = e" by simp
      moreover have "float32_normalize (Suc k) a c = c"
        using False not_up by auto
      ultimately show ?thesis by simp
    qed
  qed
qed

lemma float32_exponent_eq:
  assumes "2 powi e \<le> a" "a < 2 powi (e + 1)" "- 126 \<le> e" "e \<le> 127"
  shows "float32_exponent a = e"
  unfolding float32_exponent_def
  using assms by (intro float32_normalize_eq) simp_all

lemma round_half_even_nearest:
  assumes "\<bar>y - of_int n\<bar> < 1 / 2"
  shows "round_half_even y = n"
proof -
  have "\<lfloor>y\<rfloor> = n \<or> \<lfloor>y\<rfloor> = n - 1"
    using assms by (auto simp add: floor_eq_iff abs_less_iff)
  then show ?thesis
  proof
    assume f: "\<lfloor>y\<rfloor> = n"
    from assms have "y - of_int n < 1 / 2"
      by linarith
    with f show ?thesis
      by (simp add: round_half_even_def Let_def)
  next
    assume f: "\<lfloor>y\<rfloor> = n - 1"
    from assms have "- (1 / 2) < y - of_int n"
      by linarith
    then have "y - of_int (n - 1) > 1 / 2"
      by simp
    with f show ?thesis
      by (simp add: round_half_even_def Let_def)
  qed
qed

lemma round_half_even_tie:
  assumes "y = of_int f + 1 / 2"
  shows "round_half_even y = (if even f then f else f + 1)"
proof -
  have "\<lfloor>y\<rfloor> = f"
    using assms by (simp add: floor_eq_iff)
  then show ?thesis
    using assms by (simp add: round_half_even_def Let_def)
qed

text \<open>
  \<open>float32_round\<close> returns the multiple of the binade's spacing nearest to \<open>x\<close>, and on
  a tie the one with the even multiplier.
\<close>

lemma float32_round_nearest:
  assumes "2 powi e \<le> \<bar>x\<bar>" "\<bar>x\<bar> < 2 powi (e + 1)" "- 126 \<le> e" "e \<le> 127"
      and "\<bar>x / 2 powi (e - 23) - of_int n\<bar> < 1 / 2"
  shows "float32_round x = of_int n * 2 powi (e - 23)"
  by (simp add: float32_round_def Let_def float32_exponent_eq [OF assms(1-4)]
        round_half_even_nearest [OF assms(5)])

lemma float32_round_tie:
  assumes "2 powi e \<le> \<bar>x\<bar>" "\<bar>x\<bar> < 2 powi (e + 1)" "- 126 \<le> e" "e \<le> 127"
      and "x / 2 powi (e - 23) = of_int f + 1 / 2"
  shows "float32_round x = of_int (if even f then f else f + 1) * 2 powi (e - 23)"
  by (simp only: float32_round_def Let_def float32_exponent_eq [OF assms(1-4)]
        round_half_even_tie [OF assms(5)])

section \<open>The loops of the float32 reading\<close>

lemma grid_cols_f32_particles:
  "m_Particles (grid_cols_f32 s start fs m row cols col) =
     m_Particles s @ row_particles_f32 start fs m row cols col"
proof (induction s start fs m row cols col rule: grid_cols_f32.induct)
  case (1 s start fs m row cols col)
  show ?case
  proof (cases "col < cols")
    case True
    then have "[col..cols - 1] = col # [col + 1..cols - 1]"
      by (simp add: upto_rec1)
    with True "1.IH" show ?thesis
      by (simp add: grid_cols_f32.simps [of s] row_particles_f32_def AddParticle_particles)
  next
    case False
    then show ?thesis
      by (simp add: grid_cols_f32.simps [of s] row_particles_f32_def)
  qed
qed

lemma grid_rows_f32_particles:
  "m_Particles (grid_rows_f32 s start fs m rows cols row) =
     m_Particles s @ grid_particles_f32 start fs m rows cols row"
proof (induction s start fs m rows cols row rule: grid_rows_f32.induct)
  case (1 s start fs m rows cols row)
  show ?case
  proof (cases "row < rows")
    case True
    then have "[row..rows - 1] = row # [row + 1..rows - 1]"
      by (simp add: upto_rec1)
    with True "1.IH" show ?thesis
      by (simp add: grid_rows_f32.simps [of s] grid_particles_f32_def grid_cols_f32_particles)
  next
    case False
    then show ?thesis
      by (simp add: grid_rows_f32.simps [of s] grid_particles_f32_def)
  qed
qed

lemma nth_concat_const:
  "(\<And>x. x \<in> set xs \<Longrightarrow> length (f x) = k) \<Longrightarrow> i < length xs \<Longrightarrow> j < k \<Longrightarrow>
     concat (map f xs) ! (i * k + j) = f (xs ! i) ! j"
proof (induction xs arbitrary: i)
  case Nil
  then show ?case by simp
next
  case (Cons x xs)
  have len: "length (f x) = k"
    using Cons.prems(1) by simp
  show ?case
  proof (cases i)
    case 0
    with len Cons.prems(3) show ?thesis
      by (simp add: nth_append)
  next
    case (Suc i')
    have "concat (map f xs) ! (i' * k + j) = f (xs ! i') ! j"
      using Cons.IH [of i'] Cons.prems Suc by simp
    moreover have "(f x @ concat (map f xs)) ! (length (f x) + (i' * k + j))
                     = concat (map f xs) ! (i' * k + j)"
      by (rule nth_append_length_plus)
    ultimately show ?thesis
      using Suc len by (simp add: add.assoc)
  qed
qed

lemma grid_particles_f32_nth:
  assumes "0 \<le> row" "row < rows" "0 \<le> col" "col < cols"
  shows "grid_particles_f32 start fs m rows cols 0 ! nat (row * cols + col)
           = \<lparr> position = gridPosition_f32 start fs row col, mass = m \<rparr>"
proof -
  have idx: "nat (row * cols + col) = nat row * nat cols + nat col"
    using assms by (simp add: nat_add_distrib nat_mult_distrib)
  have "concat (map (\<lambda>r. row_particles_f32 start fs m r cols 0) [0..rows - 1])
          ! (nat row * nat cols + nat col)
        = row_particles_f32 start fs m ([0..rows - 1] ! nat row) cols 0 ! nat col"
    using assms by (intro nth_concat_const) (simp_all add: row_particles_f32_def)
  moreover have "[0..rows - 1] ! nat row = row"
    using assms by simp
  ultimately show ?thesis
    using assms by (simp add: grid_particles_f32_def idx row_particles_f32_def)
qed

lemma length_grid_particles_f32:
  "length (grid_particles_f32 start fs m rows cols row) = nat (rows - row) * nat cols"
  by (simp add: grid_particles_f32_def length_concat_const row_particles_f32_def)

text \<open>
  Iteration \<open>(row, col)\<close> of the loops, run on an empty store, leaves its particle at
  index \<open>row * cols + col\<close>.
\<close>

lemma grid_rows_f32_store:
  assumes "m_Particles s = []" "0 \<le> row" "row < rows" "0 \<le> col" "col < cols"
  shows "m_Particles (grid_rows_f32 s start fs m rows cols 0) ! nat (row * cols + col)
           = \<lparr> position = gridPosition_f32 start fs row col, mass = m \<rparr>"
    and "length (m_Particles (grid_rows_f32 s start fs m rows cols 0)) = nat rows * nat cols"
  using assms
  by (simp_all add: grid_rows_f32_particles grid_particles_f32_nth length_grid_particles_f32
        del: nat_add_distrib nat_mult_distrib)

lemma grid_cols_f32_frame:
  "grid_cols_f32 s start fs m row cols col \<lparr> m_Particles := ps \<rparr> = s \<lparr> m_Particles := ps \<rparr>"
proof (induction s start fs m row cols col rule: grid_cols_f32.induct)
  case (1 s start fs m row cols col)
  show ?case
  proof (cases "col < cols")
    case True
    with "1.IH" show ?thesis
      by (simp add: grid_cols_f32.simps [of s] AddParticle_frame)
  next
    case False
    then show ?thesis
      by (simp add: grid_cols_f32.simps [of s])
  qed
qed

lemma grid_rows_f32_frame:
  "grid_rows_f32 s start fs m rows cols row \<lparr> m_Particles := ps \<rparr> = s \<lparr> m_Particles := ps \<rparr>"
proof (induction s start fs m rows cols row rule: grid_rows_f32.induct)
  case (1 s start fs m rows cols row)
  show ?case
  proof (cases "row < rows")
    case True
    with "1.IH" show ?thesis
      by (simp add: grid_rows_f32.simps [of s] grid_cols_f32_frame)
  next
    case False
    then show ?thesis
      by (simp add: grid_rows_f32.simps [of s])
  qed
qed

text \<open>
  The float32 reading agrees with the exact one on what is appended: the whole grid of
  \<open>rows * cols\<close> particles after the old store, or nothing.
\<close>

lemma f32_whole_grid_or_nothing:
  "(fst (AddParticleGrid_f32 s rows cols bl tr sp m) = GridCreated \<and> 0 < rows \<and> 0 < cols \<and>
    length (m_Particles (snd (AddParticleGrid_f32 s rows cols bl tr sp m))) =
      length (m_Particles s) + nat (rows * cols) \<and>
    take (length (m_Particles s)) (m_Particles (snd (AddParticleGrid_f32 s rows cols bl tr sp m)))
      = m_Particles s \<and>
    snd (AddParticleGrid_f32 s rows cols bl tr sp m) \<lparr> m_Particles := m_Particles s \<rparr> = s)
   \<or>
   (fst (AddParticleGrid_f32 s rows cols bl tr sp m) \<noteq> GridCreated \<and>
    snd (AddParticleGrid_f32 s rows cols bl tr sp m) = s)"
proof (cases "fst (AddParticleGrid_f32 s rows cols bl tr sp m) = GridCreated")
  case True
  then have pos: "0 < rows" "0 < cols"
    by (auto simp add: AddParticleGrid_f32_def Let_def split: if_splits)
  then have count: "nat rows * nat cols = nat (rows * cols)"
    by (simp add: nat_mult_distrib)
  from True obtain start fs where
    "snd (AddParticleGrid_f32 s rows cols bl tr sp m) = grid_rows_f32 s start fs m rows cols 0"
    by (auto simp add: AddParticleGrid_f32_def Let_def split: if_splits)
  with True pos count show ?thesis
    by (simp add: grid_rows_f32_particles grid_rows_f32_frame length_grid_particles_f32)
next
  case False
  then have "snd (AddParticleGrid_f32 s rows cols bl tr sp m) = s"
    by (auto simp add: AddParticleGrid_f32_def Let_def split: if_splits)
  with False show ?thesis by simp
qed

section \<open>Rounded values\<close>

text \<open>
  The roundings that the two traced requests meet, each checked against
  \<open>float32_round_nearest\<close> or \<open>float32_round_tie\<close> with its binade and multiplier.
\<close>

lemma float32_round_value_01: "float32_round (- 990) = (- 990)"
  using float32_round_nearest [of 9 "(- 990)" "(- 16220160)"] by simp

lemma float32_round_value_02: "float32_round (- 740) = (- 740)"
  using float32_round_nearest [of 9 "(- 740)" "(- 12124160)"] by simp

lemma float32_round_value_03: "float32_round 990 = 990"
  using float32_round_nearest [of 9 "990" "16220160"] by simp

lemma float32_round_value_04: "float32_round 740 = 740"
  using float32_round_nearest [of 9 "740" "12124160"] by simp

lemma float32_round_value_05: "float32_round 24 = 24"
  using float32_round_nearest [of 4 "24" "12582912"] by simp

lemma float32_round_value_06: "float32_round 20 = 20"
  using float32_round_nearest [of 4 "20" "10485760"] by simp

lemma float32_round_value_07: "float32_round 480 = 480"
  using float32_round_nearest [of 8 "480" "15728640"] by simp

lemma float32_round_value_08: "float32_round 23 = 23"
  using float32_round_nearest [of 4 "23" "12058624"] by simp

lemma float32_round_value_09: "float32_round 0 = 0"
  by (simp add: float32_round_def round_half_even_def)

lemma float32_round_value_10: "float32_round 1 = 1"
  using float32_round_nearest [of 0 "1" "8388608"] by simp

lemma float32_round_value_11: "float32_round 1980 = 1980"
  using float32_round_nearest [of 10 "1980" "16220160"] by simp

lemma float32_round_value_12: "float32_round 1480 = 1480"
  using float32_round_nearest [of 10 "1480" "12124160"] by simp

lemma float32_round_value_13: "float32_round 74 = 74"
  using float32_round_nearest [of 6 "74" "9699328"] by simp

lemma float32_round_value_14: "float32_round 99 = 99"
  using float32_round_nearest [of 6 "99" "12976128"] by simp

lemma float32_round_value_15: "float32_round 7326 = 7326"
  using float32_round_nearest [of 12 "7326" "15003648"] by simp

lemma float32_round_value_16: "float32_round (1980 / 23) = (5641795 / 65536)"
  using float32_round_nearest [of 6 "(1980 / 23)" "11283590"] by simp

lemma float32_round_value_17: "float32_round (129761285 / 65536) = (16220161 / 8192)"
  using float32_round_nearest [of 10 "(129761285 / 65536)" "16220161"] by simp

lemma float32_round_value_18: "float32_round (5641795 / 65536) = (5641795 / 65536)"
  using float32_round_nearest [of 6 "(5641795 / 65536)" "11283590"] by simp

lemma float32_round_value_19: "float32_round (- (59238845 / 65536)) = (- (14809711 / 16384))"
  using float32_round_nearest [of 9 "(- (59238845 / 65536))" "(- 14809711)"] by simp

lemma float32_round_value_20: "float32_round 2 = 2"
  using float32_round_nearest [of 1 "2" "8388608"] by simp

lemma float32_round_value_21: "float32_round (5641795 / 32768) = (5641795 / 32768)"
  using float32_round_nearest [of 7 "(5641795 / 32768)" "11283590"] by simp

lemma float32_round_value_22: "float32_round (- (26798525 / 32768)) = (- (6699631 / 8192))"
  using float32_round_tie [of 9 "(- (26798525 / 32768))" "(- 13399263)"] by simp

lemma float32_round_value_23: "float32_round 3 = 3"
  using float32_round_nearest [of 1 "3" "12582912"] by simp

lemma float32_round_value_24: "float32_round (16925385 / 65536) = (2115673 / 8192)"
  using float32_round_tie [of 8 "(16925385 / 65536)" "8462692"] by simp

lemma float32_round_value_25: "float32_round (- (5994407 / 8192)) = (- (5994407 / 8192))"
  using float32_round_nearest [of 9 "(- (5994407 / 8192))" "(- 11988814)"] by simp

lemma float32_round_value_26: "float32_round (8110081 / 8192) = (8110081 / 8192)"
  using float32_round_nearest [of 9 "(8110081 / 8192)" "16220162"] by simp

lemma float32_round_value_27: "float32_round 40 = 40"
  using float32_round_nearest [of 5 "40" "10485760"] by simp

lemma float32_round_value_28: "float32_round 60 = 60"
  using float32_round_nearest [of 5 "60" "15728640"] by simp

lemma float32_round_value_29: "float32_round (52494335 / 131072) = (801 / 2)"
  using float32_round_nearest [of 8 "(52494335 / 131072)" "13123584"] by simp

lemma float32_round_value_30: "float32_round 200 = 200"
  using float32_round_nearest [of 7 "200" "13107200"] by simp

lemma float32_round_value_31: "float32_round 10 = 10"
  using float32_round_nearest [of 3 "10" "10485760"] by simp

lemma float32_round_value_32: "float32_round (801 / 40) = (10498867 / 524288)"
  using float32_round_nearest [of 4 "(801 / 40)" "10498867"] by simp

lemma float32_round_value_33: "float32_round (52494335 / 262144) = (801 / 4)"
  using float32_round_nearest [of 7 "(52494335 / 262144)" "13123584"] by simp

lemma float32_round_value_34: "float32_round (761 / 2) = (761 / 2)"
  using float32_round_nearest [of 8 "(761 / 2)" "12468224"] by simp

lemma float32_round_value_35: "float32_round (761 / 4) = (761 / 4)"
  using float32_round_nearest [of 7 "(761 / 4)" "12468224"] by simp

lemma float32_round_value_36: "float32_round (14175437 / 131072) = (14175437 / 131072)"
  using float32_round_nearest [of 6 "(14175437 / 131072)" "14175437"] by simp

lemma float32_round_value_37: "float32_round 100 = 100"
  using float32_round_nearest [of 6 "100" "13107200"] by simp

lemma float32_round_value_38: "float32_round (16796877 / 131072) = (4199219 / 32768)"
  using float32_round_tie [of 7 "(16796877 / 131072)" "8398438"] by simp

lemmas float32_round_values =
  float32_round_value_01 float32_round_value_02 float32_round_value_03
  float32_round_value_04 float32_round_value_05 float32_round_value_06
  float32_round_value_07 float32_round_value_08 float32_round_value_09
  float32_round_value_10 float32_round_value_11 float32_round_value_12
  float32_round_value_13 float32_round_value_14 float32_round_value_15
  float32_round_value_16 float32_round_value_17 float32_round_value_18
  float32_round_value_19 float32_round_value_20 float32_round_value_21
  float32_round_value_22 float32_round_value_23 float32_round_value_24
  float32_round_value_25 float32_round_value_26 float32_round_value_27
  float32_round_value_28 float32_round_value_29 float32_round_value_30
  float32_round_value_31 float32_round_value_32 float32_round_value_33
  float32_round_value_34 float32_round_value_35 float32_round_value_36
  float32_round_value_37 float32_round_value_38

section \<open>Two requests traced in float32\<close>

lemmas f32_eval_defs =
  AddParticleGrid_f32_def gridBottomLeft_f32_def gridTopRight_f32_def requiredWidth_f32_def
  requiredHeight_f32_def tooManyParticles_f32_def finalSpacing_f32_def
  minRequiredSpacing_f32_def gridSize_f32_def startPos_f32_def gridPosition_f32_def
  vec2_add_f32_def vec2_sub_f32_def f32_add_def f32_sub_def f32_mul_def f32_div_def
  f32_of_int_def scenario_system_def SimulationSystem_new_def glm_max_def glm_min_def
  vec2_splat_def int32_mul_def Let_def

text \<open>
  The scenario of the specification with one row of 24 columns and no requested spacing:
  the request is accepted, the shrunk rectangle is \<open>(-990, -740)\<close>--\<open>(990, 740)\<close>, and the
  spacing is the float nearest to \<open>1980 / 23\<close>, which lies above it.
\<close>

lemma row_of_24_shrunk_rect:
  "gridBottomLeft_f32 scenario_system (-1000, -750) = (- 990, - 740)"
  "gridTopRight_f32 scenario_system (1000, 750) = (990, 740)"
  "vec2_sub_f32 (gridTopRight_f32 scenario_system (1000, 750))
     (gridBottomLeft_f32 scenario_system (-1000, -750)) = (1980, 1480)"
  by (simp_all add: f32_eval_defs float32_round_values)

lemma row_of_24_accepted:
  "AddParticleGrid_f32 scenario_system 1 24 (-1000, -750) (1000, 750) (0, 0) 1 =
     (GridCreated,
      grid_rows_f32 scenario_system (- 990, 0) (5641795 / 65536, 0) 1 1 24 0)"
  by (simp add: f32_eval_defs float32_round_values)

lemma row_of_24_positions:
  "gridPosition_f32 (- 990, 0) (5641795 / 65536, 0) 0 0 = (- 990, 0)"
  "gridPosition_f32 (- 990, 0) (5641795 / 65536, 0) 0 1 = (- (14809711 / 16384), 0)"
  "gridPosition_f32 (- 990, 0) (5641795 / 65536, 0) 0 2 = (- (6699631 / 8192), 0)"
  "gridPosition_f32 (- 990, 0) (5641795 / 65536, 0) 0 3 = (- (5994407 / 8192), 0)"
  "gridPosition_f32 (- 990, 0) (5641795 / 65536, 0) 0 23 = (8110081 / 8192, 0)"
  by (simp_all add: f32_eval_defs float32_round_values)

lemma scenario_store_empty: "m_Particles scenario_system = []"
  by (simp add: scenario_system_def SimulationSystem_new_def)

lemma row_of_24_store:
  "fst (AddParticleGrid_f32 scenario_system 1 24 (-1000, -750) (1000, 750) (0, 0) 1)
     = GridCreated"
  "length (m_Particles (snd (AddParticleGrid_f32 scenario_system 1 24
      (-1000, -750) (1000, 750) (0, 0) 1))) = 24"
  "position (m_Particles (snd (AddParticleGrid_f32 scenario_system 1 24
      (-1000, -750) (1000, 750) (0, 0) 1)) ! 0) = (- 990, 0)"
  "position (m_Particles (snd (AddParticleGrid_f32 scenario_system 1 24
      (-1000, -750) (1000, 750) (0, 0) 1)) ! 1) = (- (14809711 / 16384), 0)"
  "position (m_Particles (snd (AddParticleGrid_f32 scenario_system 1 24
      (-1000, -750) (1000, 750) (0, 0) 1)) ! 2) = (- (6699631 / 8192), 0)"
  "position (m_Particles (snd (AddParticleGrid_f32 scenario_system 1 24
      (-1000, -750) (1000, 750) (0, 0) 1)) ! 3) = (- (5994407 / 8192), 0)"
  "position (m_Particles (snd (AddParticleGrid_f32 scenario_system 1 24
      (-1000, -750) (1000, 750) (0, 0) 1)) ! 23) = (8110081 / 8192, 0)"
  using grid_rows_f32_store(1) [OF scenario_store_empty, of 0 1 0 24
          "(- 990, 0)" "(5641795 / 65536, 0)" 1]
        grid_rows_f32_store(1) [OF scenario_store_empty, of 0 1 1 24
          "(- 990, 0)" "(5641795 / 65536, 0)" 1]
        grid_rows_f32_store(1) [OF scenario_store_empty, of 0 1 2 24
          "(- 990, 0)" "(5641795 / 65536, 0)" 1]
        grid_rows_f32_store(1) [OF scenario_store_empty, of 0 1 3 24
          "(- 990, 0)" "(5641795 / 65536, 0)" 1]
        grid_rows_f32_store(1) [OF scenario_store_empty, of 0 1 23 24
          "(- 990, 0)" "(5641795 / 65536, 0)" 1]
        grid_rows_f32_store(2) [OF scenario_store_empty, of 0 1 0 24
          "(- 990, 0)" "(5641795 / 65536, 0)" 1]
  by (simp_all add: row_of_24_accepted row_of_24_positions)

text \<open>
  C9, the code at a failing input. In the scenario of the specification (bounds
  \<open>(-1000, -750)\<close>--\<open>(1000, 750)\<close>, radius 10) the request for 1 row of 24 columns over
  the whole domain with no spacing is accepted and appends 24 particles; the center of the
  last one is stored at \<open>x = 990 + 1/8192 = 990.0001220703125\<close>, beyond
  \<open>topRight.x - radius = 990\<close>, where the claim has every center at or below it.
\<close>

theorem AddParticleGrid_f32_center_outside:
  "fst (AddParticleGrid_f32 scenario_system 1 24 (-1000, -750) (1000, 750) (0, 0) 1)
     = GridCreated \<and>
   length (m_Particles (snd (AddParticleGrid_f32 scenario_system 1 24
      (-1000, -750) (1000, 750) (0, 0) 1))) = 24 \<and>
   position (m_Particles (snd (AddParticleGrid_f32 scenario_system 1 24
      (-1000, -750) (1000, 750) (0, 0) 1)) ! 23) = (990 + 1 / 8192, 0) \<and>
   fst (m_topRight scenario_system) - m_ParticleRadius scenario_system = 990 \<and>
   fst (m_topRight scenario_system) - m_ParticleRadius scenario_system
     < fst (position (m_Particles (snd (AddParticleGrid_f32 scenario_system 1 24
         (-1000, -750) (1000, 750) (0, 0) 1)) ! 23))"
  unfolding row_of_24_store
  by (simp add: scenario_system_def SimulationSystem_new_def)

text \<open>
  C4, the code at a failing input. The same request has zero spacing and more than one
  column, and its available width is 1980, so the claim has consecutive centers exactly
  \<open>1980 / 23\<close> apart and the last one on the upper edge 990 of the shrunk rectangle. The
  stored centers of the first four particles are \<open>86.08697509765625\<close>,
  \<open>86.08697509765625\<close> and \<open>86.0869140625\<close> apart, one step above and one below
  \<open>1980 / 23\<close>, and the last center lies beyond the edge.
\<close>

theorem AddParticleGrid_f32_uneven_steps:
  "fst (AddParticleGrid_f32 scenario_system 1 24 (-1000, -750) (1000, 750) (0, 0) 1)
     = GridCreated \<and>
   vec2_sub_f32 (gridTopRight_f32 scenario_system (1000, 750))
     (gridBottomLeft_f32 scenario_system (-1000, -750)) = (1980, 1480) \<and>
   fst (position (m_Particles (snd (AddParticleGrid_f32 scenario_system 1 24
         (-1000, -750) (1000, 750) (0, 0) 1)) ! 1))
     - fst (position (m_Particles (snd (AddParticleGrid_f32 scenario_system 1 24
         (-1000, -750) (1000, 750) (0, 0) 1)) ! 0)) = 1410449 / 16384 \<and>
   fst (position (m_Particles (snd (AddParticleGrid_f32 scenario_system 1 24
         (-1000, -750) (1000, 750) (0, 0) 1)) ! 3))
     - fst (position (m_Particles (snd (AddParticleGrid_f32 scenario_system 1 24
         (-1000, -750) (1000, 750) (0, 0) 1)) ! 2)) = 88153 / 1024 \<and>
   (88153 / 1024 :: real) < 1980 / 23 \<and> (1980 / 23 :: real) < 1410449 / 16384 \<and>
   fst (gridTopRight_f32 scenario_system (1000, 750))
     < fst (position (m_Particles (snd (AddParticleGrid_f32 scenario_system 1 24
         (-1000, -750) (1000, 750) (0, 0) 1)) ! 23))"
  unfolding row_of_24_store row_of_24_shrunk_rect
  by (simp add: vec2_sub_f32_def f32_sub_def float32_round_values)

text \<open>
  A row of two particles, requested spacing 20 (one diameter), in the rectangle
  \<open>(-82.1f, -100)\<close>--\<open>(318.4f, 100)\<close> of the same scenario; the two \<open>float\<close>s are
  \<open>-10761011 / 131072\<close> and \<open>10433331 / 32768\<close>.
\<close>

lemma row_of_2_accepted:
  "AddParticleGrid_f32 scenario_system 1 2 (- (10761011 / 131072), - 100)
       (10433331 / 32768, 100) (20, 0) 1 =
     (GridCreated,
      grid_rows_f32 scenario_system (14175437 / 131072, 0) (20, 0) 1 1 2 0)"
  by (simp add: f32_eval_defs float32_round_values)

lemma row_of_2_positions:
  "gridPosition_f32 (14175437 / 131072, 0) (20, 0) 0 0 = (14175437 / 131072, 0)"
  "gridPosition_f32 (14175437 / 131072, 0) (20, 0) 0 1 = (4199219 / 32768, 0)"
  by (simp_all add: f32_eval_defs float32_round_values)

lemma row_of_2_store:
  "fst (AddParticleGrid_f32 scenario_system 1 2 (- (10761011 / 131072), - 100)
     (10433331 / 32768, 100) (20, 0) 1) = GridCreated"
  "position (m_Particles (snd (AddParticleGrid_f32 scenario_system 1 2
      (- (10761011 / 131072), - 100) (10433331 / 32768, 100) (20, 0) 1)) ! 0)
     = (14175437 / 131072, 0)"
  "position (m_Particles (snd (AddParticleGrid_f32 scenario_system 1 2
      (- (10761011 / 131072), - 100) (10433331 / 32768, 100) (20, 0) 1)) ! 1)
     = (4199219 / 32768, 0)"
  using grid_rows_f32_store(1) [OF scenario_store_empty, of 0 1 0 2
          "(14175437 / 131072, 0)" "(20, 0)" 1]
        grid_rows_f32_store(1) [OF scenario_store_empty, of 0 1 1 2
          "(14175437 / 131072, 0)" "(20, 0)" 1]
  by (simp_all add: row_of_2_accepted row_of_2_positions)

lemma distance_on_a_row: "vec2_distance (a, c) (b, c) = \<bar>a - b\<bar>"
  by (simp add: vec2_distance_def)

text \<open>
  C5, the code at a failing input. The request above has a spacing equal to the diameter,
  so it passes the minimum-spacing test and is accepted; the two centers are stored at
  \<open>108.1500015258789\<close> and \<open>128.14999389648438\<close>, which is \<open>19.99999237060547\<close> apart,
  less than the diameter 20: the accepted request has produced two overlapping particles.
\<close>

theorem AddParticleGrid_f32_overlap:
  "fst (AddParticleGrid_f32 scenario_system 1 2 (- (10761011 / 131072), - 100)
     (10433331 / 32768, 100) (20, 0) 1) = GridCreated \<and>
   position (m_Particles (snd (AddParticleGrid_f32 scenario_system 1 2
      (- (10761011 / 131072), - 100) (10433331 / 32768, 100) (20, 0) 1)) ! 0)
     = (14175437 / 131072, 0) \<and>
   position (m_Particles (snd (AddParticleGrid_f32 scenario_system 1 2
      (- (10761011 / 131072), - 100) (10433331 / 32768, 100) (20, 0) 1)) ! 1)
     = (4199219 / 32768, 0) \<and>
   vec2_distance
     (position (m_Particles (snd (AddParticleGrid_f32 scenario_system 1 2
        (- (10761011 / 131072), - 100) (10433331 / 32768, 100) (20, 0) 1)) ! 0))
     (position (m_Particles (snd (AddParticleGrid_f32 scenario_system 1 2
        (- (10761011 / 131072), - 100) (10433331 / 32768, 100) (20, 0) 1)) ! 1))
     = 2621439 / 131072 \<and>
   (2621439 / 131072 :: real) < 2 * m_ParticleRadius scenario_system"
  unfolding row_of_2_store distance_on_a_row
  by (simp add: scenario_system_def SimulationSystem_new_def)

section \<open>The capacity test\<close>










section \<open>The view matrix\<close>







section \<open>The fixed-step clock\<close>

lemma Time_update_capped:
  "fst (Time_update t frameTime) \<le> maxSteps t"
  by (simp add: Time_update_def Let_def)

lemma Time_update_three_and_a_half:
  assumes "0 < fixedDeltaTime t" "accumulator t + frameTime = (7 / 2) * fixedDeltaTime t"
      and "3 \<le> maxSteps t"
  shows "Time_update t frameTime = (3, t\<lparr> accumulator := (1 / 2) * fixedDeltaTime t \<rparr>)"
proof -
  have q: "(accumulator t + frameTime) / fixedDeltaTime t = 7 / 2"
    using assms(1) by (simp add: assms(2))
  have "\<lfloor>7 / 2 :: real\<rfloor> = 3"
    by (simp add: floor_eq_iff)
  then have steps: "nat \<lfloor>(accumulator t + frameTime) / fixedDeltaTime t\<rfloor> = 3"
    by (simp only: q)
  have "accumulator t + frameTime - real (3::nat) * fixedDeltaTime t = (1 / 2) * fixedDeltaTime t"
    by (simp add: assms(2))
  then show ?thesis
    using assms(3) by (simp only: Time_update_def Let_def steps) simp
qed

lemma Time_update_thousand:
  assumes "0 < fixedDeltaTime t" "accumulator t + frameTime = 1000 * fixedDeltaTime t"
  shows "Time_update t frameTime = (min 1000 (maxSteps t), t\<lparr> accumulator := 0 \<rparr>)"
proof -
  have "(accumulator t + frameTime) / fixedDeltaTime t = 1000"
    using assms(1) by (simp add: assms(2))
  then have steps: "nat \<lfloor>(accumulator t + frameTime) / fixedDeltaTime t\<rfloor> = 1000"
    by simp
  have "accumulator t + frameTime - real (1000::nat) * fixedDeltaTime t = 0"
    by (simp add: assms(2))
  then show ?thesis
    by (simp only: Time_update_def Let_def steps) (simp add: min_def)
qed

text \<open>
  C8, on the clock as section 4.1 of the specification describes it: with a positive step
  size and a configured maximum of at least 3, an accumulated duration of 3.5 steps makes
  \<open>update\<close> report exactly 3 steps and keep half a step for the next call; an accumulated
  duration of 1000 steps makes it report \<open>min 1000 maxSteps\<close>, so never more than the
  maximum, and leaves nothing in the accumulator: the time beyond the cap is dropped, not
  carried over. No call ever reports more than the maximum.
\<close>

theorem Time_update_fixed_steps:
  "(0 < fixedDeltaTime t \<and> accumulator t + frameTime = (7 / 2) * fixedDeltaTime t \<and>
    3 \<le> maxSteps t
    \<longrightarrow> Time_update t frameTime = (3, t\<lparr> accumulator := (1 / 2) * fixedDeltaTime t \<rparr>)) \<and>
   (0 < fixedDeltaTime t \<and> accumulator t + frameTime = 1000 * fixedDeltaTime t
    \<longrightarrow> fst (Time_update t frameTime) = min 1000 (maxSteps t) \<and>
        fst (Time_update t frameTime) \<le> maxSteps t \<and>
        accumulator (snd (Time_update t frameTime)) = 0) \<and>
   fst (Time_update t frameTime) \<le> maxSteps t"
  using Time_update_three_and_a_half [of t frameTime] Time_update_thousand [of t frameTime]
        Time_update_capped [of t frameTime]
  by simp

theorem Time_update_fixed_steps_witness:
  "Time_update \<lparr> fixedDeltaTime = 1 / 60, accumulator = 0, maxSteps = 5 \<rparr> (7 / 120)
     = (3, \<lparr> fixedDeltaTime = 1 / 60, accumulator = 1 / 120, maxSteps = 5 \<rparr>) \<and>
   fst (Time_update \<lparr> fixedDeltaTime = 1 / 60, accumulator = 0, maxSteps = 5 \<rparr> (1000 / 60)) = 5 \<and>
   accumulator (snd (Time_update \<lparr> fixedDeltaTime = 1 / 60, accumulator = 0, maxSteps = 5 \<rparr>
     (1000 / 60))) = 0"
proof -
  have "Time_update \<lparr> fixedDeltaTime = 1 / 60, accumulator = 0, maxSteps = 5 \<rparr> (7 / 120)
     = (3, \<lparr> fixedDeltaTime = 1 / 60, accumulator = 1 / 120, maxSteps = 5 \<rparr>)"
    using Time_update_fixed_steps
      [of "\<lparr> fixedDeltaTime = 1 / 60, accumulator = 0, maxSteps = 5 \<rparr>" "7 / 120"]
    by simp
  moreover have
    "fst (Time_update \<lparr> fixedDeltaTime = 1 / 60, accumulator = 0, maxSteps = 5 \<rparr> (1000 / 60)) = 5 \<and>
     accumulator (snd (Time_update \<lparr> fixedDeltaTime = 1 / 60, accumulator = 0, maxSteps = 5 \<rparr>
       (1000 / 60))) = 0"
    using Time_update_fixed_steps
      [of "\<lparr> fixedDeltaTime = 1 / 60, accumulator = 0, maxSteps = 5 \<rparr>" "1000 / 60"]
    by simp
  ultimately show ?thesis
    by simp
qed

end
